theory Spec2Isabelle
  imports Main
begin

section \<open>Dot's soul: perception routing and mental processes\<close>

text \<open>
  The development embeds \<^verbatim>\<open>src/soul/soul.ts\<close>: the four mental processes
  registered with \<^verbatim>\<open>dot.on\<close> and the perception handler registered with
  \<^verbatim>\<open>dot.onPerception\<close>. The handlers are asynchronous functions of a
  \<^verbatim>\<open>soul\<close> handle and a perception; every effect of a handler is a call of one of
  the handle's four methods (\<^verbatim>\<open>speak\<close>, \<^verbatim>\<open>think\<close>, \<^verbatim>\<open>remember\<close>,
  \<^verbatim>\<open>observe\<close>). The handle belongs to the imported package
  \<^verbatim>\<open>@opensouls/soul\<close>; its methods are modelled from the specification and log every
  call they receive, so that a theorem can say which calls a handler made and in which order.
\<close>

subsection \<open>Data model\<close>

text \<open>A perception, as the handlers destructure it: \<^verbatim>\<open>const { content, type } = perception\<close>.\<close>

record Perception =
  content :: string
  type :: string

text \<open>The tagged result of processing one perception.\<close>

datatype ActionResult = Spoken string | Thought string | Observed string

datatype error = StorageError | UnknownModeError

text \<open>
  Modelled from the spec: the record kept by the Memory Store,
  \<^verbatim>\<open>{ content, timestamp, ownerIdentity }\<close>; the owner is referred to by the soul's name.
\<close>

record MemoryRecord =
  record_content :: string
  timestamp :: nat
  ownerIdentity :: string

text \<open>
  Modelled from the spec: the \<^verbatim>\<open>soul\<close> handle that the engine passes to a handler.
  It carries the injected capabilities \<^verbatim>\<open>speak\<close>, \<^verbatim>\<open>think\<close> and
  \<^verbatim>\<open>observe\<close>, each a function from text to text, and the condition under which the
  storage accepts a record (a storage failure is its negation). The name and the description
  are the fields given to \<^verbatim>\<open>new Soul({...})\<close> in \<^verbatim>\<open>soul.ts\<close>; the third
  field there, the blueprint, is prompt text that no handler reads, and is left out.
\<close>

record Soul =
  name :: string
  description :: string
  speak :: "string \<Rightarrow> string"
  think :: "string \<Rightarrow> string"
  observe :: "string \<Rightarrow> string"
  append_ok :: "MemoryRecord list \<Rightarrow> MemoryRecord \<Rightarrow> bool"

text \<open>\<^verbatim>\<open>const dot = new Soul({ name: "Dot", description: "..." })\<close>, over given capabilities.\<close>

definition dot ::
  "(string \<Rightarrow> string) \<Rightarrow> (string \<Rightarrow> string) \<Rightarrow> (string \<Rightarrow> string) \<Rightarrow>
   (MemoryRecord list \<Rightarrow> MemoryRecord \<Rightarrow> bool) \<Rightarrow> Soul" where
  "dot sp th ob ok =
     \<lparr>name = ''Dot'', description = ''A curious and friendly ladybug digital being'',
      speak = sp, think = th, observe = ob, append_ok = ok\<rparr>"

text \<open>
  The calls a handler makes, in the order it makes them, and the world they act on: the log
  of calls, the append-only memory log and the current instant.
\<close>

datatype call = Speak string | Think string | Observe string | Append MemoryRecord

record world =
  calls :: "call list"
  memory :: "MemoryRecord list"
  now :: nat

text \<open>
  An asynchronous computation: run on a world it yields a value or an error (a rejected
  promise) and the world it leaves behind.
\<close>

type_synonym 'a action = "world \<Rightarrow> (error + 'a) \<times> world"

text \<open>
  \<^verbatim>\<open>await m; k\<close> inside an \<^verbatim>\<open>async\<close> function: when \<open>m\<close> rejects, the function
  rejects with the same error and \<open>k\<close> is not run.
\<close>

definition await :: "'a action \<Rightarrow> ('a \<Rightarrow> 'b action) \<Rightarrow> 'b action" where
  "await m k w = (case m w of (Inl e, w') \<Rightarrow> (Inl e, w') | (Inr x, w') \<Rightarrow> k x w')"

subsection \<open>The methods of the soul handle\<close>

text \<open>
  Modelled from the spec: \<^verbatim>\<open>speak(content)\<close> sends the content to the generation
  backend and returns its output as \<open>Spoken\<close>.
\<close>

definition soul_speak :: "Soul \<Rightarrow> string \<Rightarrow> ActionResult action" where
  "soul_speak soul text w = (Inr (Spoken (speak soul text)), w\<lparr>calls := calls w @ [Speak text]\<rparr>)"

text \<open>Modelled from the spec: \<^verbatim>\<open>think(content)\<close>, same backend, returns \<open>Thought\<close>.\<close>

definition soul_think :: "Soul \<Rightarrow> string \<Rightarrow> ActionResult action" where
  "soul_think soul text w = (Inr (Thought (think soul text)), w\<lparr>calls := calls w @ [Think text]\<rparr>)"

text \<open>Modelled from the spec: \<^verbatim>\<open>observe(content)\<close> tags its input as \<open>Observed\<close>.\<close>

definition soul_observe :: "Soul \<Rightarrow> string \<Rightarrow> ActionResult action" where
  "soul_observe soul text w =
     (Inr (Observed (observe soul text)), w\<lparr>calls := calls w @ [Observe text]\<rparr>)"

text \<open>
  Modelled from the spec: \<^verbatim>\<open>Memory.append(record) -> Result<(), StorageError>\<close> on an
  append-only log. A failed append leaves the log as it was.
\<close>

definition Memory_append :: "Soul \<Rightarrow> MemoryRecord \<Rightarrow> unit action" where
  "Memory_append soul r w =
     (if append_ok soul (memory w) r
      then (Inr (), w\<lparr>calls := calls w @ [Append r], memory := memory w @ [r]\<rparr>)
      else (Inl StorageError, w\<lparr>calls := calls w @ [Append r]\<rparr>))"

text \<open>
  Modelled from the spec: \<^verbatim>\<open>soul.remember(content)\<close> is
  \<^verbatim>\<open>Memory.append({content, now(), identity})\<close>.
\<close>

definition soul_remember :: "Soul \<Rightarrow> string \<Rightarrow> unit action" where
  "soul_remember soul text w =
     Memory_append soul
       \<lparr>record_content = text, timestamp = now w, ownerIdentity = name soul\<rparr> w"

subsection \<open>The handlers of \<^verbatim>\<open>soul.ts\<close>\<close>

type_synonym handler = "Soul \<Rightarrow> Perception \<Rightarrow> ActionResult action"

definition idle :: handler where
  "idle soul perception =
     soul_think soul ''I wonder what interesting things I might discover today...''"

definition curious :: handler where
  "curious soul perception =
     soul_think soul ''This is fascinating! I want to understand more...''"

definition empathetic :: handler where
  "empathetic soul perception =
     soul_think soul ''I sense something meaningful here. Let me be present...''"

definition playful :: handler where
  "playful soul perception = soul_think soul ''*wiggles antennae happily* This is fun!''"

text \<open>The \<^verbatim>\<open>switch (type)\<close> of the perception handler; \<^verbatim>\<open>case\<close> compares with \<open>===\<close>.\<close>

definition onPerception :: handler where
  "onPerception soul perception =
     (if type perception = ''user_message'' then soul_speak soul (content perception)
      else if type perception = ''self_reflection'' then soul_think soul (content perception)
      else if type perception = ''experience'' then
        await (soul_remember soul (content perception))
          (\<lambda>_. soul_think soul ''I'll remember this...'')
      else soul_observe soul (content perception))"

subsection \<open>Mental processes\<close>

text \<open>
  \<^verbatim>\<open>dot.on(mode, handler)\<close> registers a handler under a mode name; the four calls of
  \<^verbatim>\<open>soul.ts\<close> are made in the order idle, curious, empathetic, playful.
\<close>

type_synonym registry = "string \<rightharpoonup> handler"

definition on :: "string \<Rightarrow> handler \<Rightarrow> registry \<Rightarrow> registry" where
  "on mode h reg = reg(mode \<mapsto> h)"

definition dot_processes :: registry where
  "dot_processes =
     on ''playful'' playful
       (on ''empathetic'' empathetic
         (on ''curious'' curious
           (on ''idle'' idle Map.empty)))"

text \<open>
  Modelled from the spec: \<^verbatim>\<open>select(mode) -> BehaviorFn\<close> of the Mental-Process
  Selector, which fails with \<open>UnknownModeError\<close> when the mode is outside the registered set.
  The selector is part of the engine, not of \<^verbatim>\<open>soul.ts\<close>.
\<close>

definition select :: "registry \<Rightarrow> string \<Rightarrow> error + handler" where
  "select reg mode = (case reg mode of None \<Rightarrow> Inl UnknownModeError | Some h \<Rightarrow> Inr h)"

text \<open>
  Modelled from the spec: the caller of \<^verbatim>\<open>select\<close>, which on \<open>UnknownModeError\<close>
  falls back to the \<^verbatim>\<open>idle\<close> behavior.
\<close>

definition select_or_idle :: "registry \<Rightarrow> string \<Rightarrow> error + handler" where
  "select_or_idle reg mode =
     (case select reg mode of
        Inr h \<Rightarrow> Inr h
      | Inl UnknownModeError \<Rightarrow> select reg ''idle''
      | Inl e \<Rightarrow> Inl e)"

subsection \<open>Observing a run\<close>

text \<open>The result of running a handler, the world it leaves and the calls it made.\<close>

definition result_of :: "handler \<Rightarrow> Soul \<Rightarrow> Perception \<Rightarrow> world \<Rightarrow> error + ActionResult" where
  "result_of h soul perception w = fst (h soul perception w)"

definition world_after :: "handler \<Rightarrow> Soul \<Rightarrow> Perception \<Rightarrow> world \<Rightarrow> world" where
  "world_after h soul perception w = snd (h soul perception w)"

definition calls_of :: "handler \<Rightarrow> Soul \<Rightarrow> Perception \<Rightarrow> world \<Rightarrow> call list" where
  "calls_of h soul perception w =
     drop (length (calls w)) (calls (world_after h soul perception w))"

fun is_speak :: "call \<Rightarrow> bool" where
  "is_speak (Speak _) = True"
| "is_speak _ = False"

fun is_think :: "call \<Rightarrow> bool" where
  "is_think (Think _) = True"
| "is_think _ = False"

fun is_append :: "call \<Rightarrow> bool" where
  "is_append (Append _) = True"
| "is_append _ = False"

text \<open>The record that \<^verbatim>\<open>soul.remember(content)\<close> hands to the store at instant \<open>t\<close>.\<close>

definition record_for :: "Soul \<Rightarrow> Perception \<Rightarrow> nat \<Rightarrow> MemoryRecord" where
  "record_for soul perception t =
     \<lparr>record_content = content perception, timestamp = t, ownerIdentity = name soul\<rparr>"

text \<open>Stub capabilities and inputs for concrete runs.\<close>

definition echo_speak :: "string \<Rightarrow> string" where
  "echo_speak text = ''Dot: '' @ text"

definition working_store :: "MemoryRecord list \<Rightarrow> MemoryRecord \<Rightarrow> bool" where
  "working_store log r = True"

definition broken_store :: "MemoryRecord list \<Rightarrow> MemoryRecord \<Rightarrow> bool" where
  "broken_store log r = False"

definition stub_dot :: Soul where
  "stub_dot = dot echo_speak (\<lambda>text. text) (\<lambda>text. text) working_store"

definition fresh :: world where
  "fresh = \<lparr>calls = [], memory = [], now = 0\<rparr>"

definition failing_dot :: Soul where
  "failing_dot = dot echo_speak (\<lambda>text. text) (\<lambda>text. text) broken_store"

definition hello_message :: Perception where
  "hello_message = \<lparr>content = ''hello'', type = ''user_message''\<rparr>"

definition met_a_friend :: Perception where
  "met_a_friend = \<lparr>content = ''met a new friend'', type = ''experience''\<rparr>"

definition pondering :: Perception where
  "pondering = \<lparr>content = ''why do leaves fall?'', type = ''self_reflection''\<rparr>"

definition weather_report :: Perception where
  "weather_report = \<lparr>content = ''light rain'', type = ''weather''\<rparr>"

section \<open>Properties\<close>

lemmas run_defs = result_of_def world_after_def calls_of_def

lemmas stub_defs = stub_dot_def dot_def echo_speak_def working_store_def fresh_def
  record_for_def

subsection \<open>One run on an experience\<close>

lemma remember_ok:
  "append_ok soul (memory w) (record_for soul p (now w)) \<Longrightarrow>
   soul_remember soul (content p) w =
     (Inr (), w\<lparr>calls := calls w @ [Append (record_for soul p (now w))],
                memory := memory w @ [record_for soul p (now w)]\<rparr>)"
  by (simp add: soul_remember_def Memory_append_def record_for_def)

lemma remember_fails:
  "\<not> append_ok soul (memory w) (record_for soul p (now w)) \<Longrightarrow>
   soul_remember soul (content p) w =
     (Inl StorageError, w\<lparr>calls := calls w @ [Append (record_for soul p (now w))]\<rparr>)"
  by (simp add: soul_remember_def Memory_append_def record_for_def)

lemma experience_ok:
  assumes "type p = ''experience''"
    and "append_ok soul (memory w) (record_for soul p (now w))"
  shows "onPerception soul p w =
     (Inr (Thought (think soul ''I'll remember this...'')),
      w\<lparr>calls := calls w @ [Append (record_for soul p (now w)), Think ''I'll remember this...''],
        memory := memory w @ [record_for soul p (now w)]\<rparr>)"
  using assms by (simp add: onPerception_def await_def remember_ok soul_think_def)

lemma experience_fails:
  assumes "type p = ''experience''"
    and "\<not> append_ok soul (memory w) (record_for soul p (now w))"
  shows "onPerception soul p w =
     (Inl StorageError, w\<lparr>calls := calls w @ [Append (record_for soul p (now w))]\<rparr>)"
  using assms by (simp add: onPerception_def await_def remember_fails)

lemma experience_run:
  assumes "type p = ''experience''"
    and "append_ok soul (memory w) (record_for soul p (now w))"
  shows "memory (world_after onPerception soul p w) = memory w @ [record_for soul p (now w)]"
    and "filter is_append (calls_of onPerception soul p w) = [Append (record_for soul p (now w))]"
  by (simp_all add: run_defs experience_ok [OF assms])

subsection \<open>The perception router\<close>

text \<open>
  Claim C1. For a perception of type \<^verbatim>\<open>experience\<close> whose append succeeds, the router
  calls \<^verbatim>\<open>Memory.append\<close> exactly once; the append has completed (the record is in the
  log of the world \<open>w1\<close>) before \<^verbatim>\<open>think\<close> is invoked on that world, and the result
  is a \<open>Thought\<close>.
\<close>

theorem experience_append_then_think:
  assumes "type p = ''experience''"
    and "append_ok soul (memory w) (record_for soul p (now w))"
  shows "\<exists>ack w1.
           soul_remember soul (content p) w = (Inr (), w1)
         \<and> memory w1 = memory w @ [record_for soul p (now w)]
         \<and> onPerception soul p w = soul_think soul ack w1
         \<and> calls_of onPerception soul p w = [Append (record_for soul p (now w)), Think ack]
         \<and> length (filter is_append (calls_of onPerception soul p w)) = 1
         \<and> result_of onPerception soul p w = Inr (Thought (think soul ack))"
proof -
  let ?r = "record_for soul p (now w)"
  let ?w1 = "w\<lparr>calls := calls w @ [Append ?r], memory := memory w @ [?r]\<rparr>"
  have rem: "soul_remember soul (content p) w = (Inr (), ?w1)"
    using assms(2) by (rule remember_ok)
  have run: "onPerception soul p w = soul_think soul ''I'll remember this...'' ?w1"
    using assms(1) by (simp add: onPerception_def await_def rem)
  have cs: "calls_of onPerception soul p w = [Append ?r, Think ''I'll remember this...'']"
    by (simp add: run_defs run soul_think_def)
  have res: "result_of onPerception soul p w = Inr (Thought (think soul ''I'll remember this...''))"
    by (simp add: run_defs run soul_think_def)
  have "soul_remember soul (content p) w = (Inr (), ?w1)
      \<and> memory ?w1 = memory w @ [?r]
      \<and> onPerception soul p w = soul_think soul ''I'll remember this...'' ?w1
      \<and> calls_of onPerception soul p w = [Append ?r, Think ''I'll remember this...'']
      \<and> length (filter is_append (calls_of onPerception soul p w)) = 1
      \<and> result_of onPerception soul p w = Inr (Thought (think soul ''I'll remember this...''))"
    using rem run cs res by simp
  then show ?thesis by blast
qed

theorem experience_append_then_think_witness:
  "type met_a_friend = ''experience''
   \<and> append_ok stub_dot (memory fresh) (record_for stub_dot met_a_friend (now fresh))
   \<and> (\<exists>ack w1.
           soul_remember stub_dot (content met_a_friend) fresh = (Inr (), w1)
         \<and> memory w1 = memory fresh @ [record_for stub_dot met_a_friend (now fresh)]
         \<and> onPerception stub_dot met_a_friend fresh = soul_think stub_dot ack w1
         \<and> calls_of onPerception stub_dot met_a_friend fresh
             = [Append (record_for stub_dot met_a_friend (now fresh)), Think ack]
         \<and> length (filter is_append (calls_of onPerception stub_dot met_a_friend fresh)) = 1
         \<and> result_of onPerception stub_dot met_a_friend fresh = Inr (Thought (think stub_dot ack)))"
proof -
  have h1: "type met_a_friend = ''experience''"
    by (simp add: met_a_friend_def)
  have h2: "append_ok stub_dot (memory fresh) (record_for stub_dot met_a_friend (now fresh))"
    by (simp add: stub_defs)
  show ?thesis
    using h1 h2 experience_append_then_think [OF h1 h2] by blast
qed

text \<open>
  Claim C2. For a perception of type \<^verbatim>\<open>experience\<close> whose append fails,
  \<^verbatim>\<open>think\<close> is never called, the result is the error \<open>StorageError\<close>, and the memory
  log is unchanged: the perception is not remembered.
\<close>

theorem experience_storage_failure:
  assumes "type p = ''experience''"
    and "\<not> append_ok soul (memory w) (record_for soul p (now w))"
  shows "result_of onPerception soul p w = Inl StorageError
       \<and> calls_of onPerception soul p w = [Append (record_for soul p (now w))]
       \<and> filter is_think (calls_of onPerception soul p w) = []
       \<and> memory (world_after onPerception soul p w) = memory w"
  by (simp add: run_defs experience_fails [OF assms])

theorem experience_storage_failure_witness:
  "type met_a_friend = ''experience''
   \<and> \<not> append_ok failing_dot (memory fresh) (record_for failing_dot met_a_friend (now fresh))
   \<and> result_of onPerception failing_dot met_a_friend fresh = Inl StorageError
   \<and> calls_of onPerception failing_dot met_a_friend fresh
       = [Append \<lparr>record_content = ''met a new friend'', timestamp = 0, ownerIdentity = ''Dot''\<rparr>]
   \<and> filter is_think (calls_of onPerception failing_dot met_a_friend fresh) = []
   \<and> memory (world_after onPerception failing_dot met_a_friend fresh) = []"
proof -
  have h1: "type met_a_friend = ''experience''"
    by (simp add: met_a_friend_def)
  have h2: "\<not> append_ok failing_dot (memory fresh) (record_for failing_dot met_a_friend (now fresh))"
    by (simp add: failing_dot_def broken_store_def dot_def)
  show ?thesis
    using h1 h2 experience_storage_failure [OF h1 h2]
    by (simp add: failing_dot_def dot_def fresh_def record_for_def met_a_friend_def)
qed

text \<open>
  Claim C3. For a perception of type \<^verbatim>\<open>user_message\<close> the router calls
  \<^verbatim>\<open>speak\<close> exactly once, on the content; it returns \<open>Spoken\<close> carrying the
  backend's output and never calls \<^verbatim>\<open>Memory.append\<close>.
\<close>

theorem user_message_speaks_once:
  assumes "type p = ''user_message''"
  shows "result_of onPerception soul p w = Inr (Spoken (speak soul (content p)))
       \<and> calls_of onPerception soul p w = [Speak (content p)]
       \<and> length (filter is_speak (calls_of onPerception soul p w)) = 1
       \<and> filter is_append (calls_of onPerception soul p w) = []
       \<and> memory (world_after onPerception soul p w) = memory w"
  using assms by (simp add: run_defs onPerception_def soul_speak_def)

theorem user_message_speaks_once_witness:
  "type hello_message = ''user_message''
   \<and> result_of onPerception stub_dot hello_message fresh = Inr (Spoken ''Dot: hello'')
   \<and> calls_of onPerception stub_dot hello_message fresh = [Speak ''hello'']
   \<and> length (filter is_speak (calls_of onPerception stub_dot hello_message fresh)) = 1
   \<and> filter is_append (calls_of onPerception stub_dot hello_message fresh) = []
   \<and> memory (world_after onPerception stub_dot hello_message fresh) = []"
proof -
  have h: "type hello_message = ''user_message''"
    by (simp add: hello_message_def)
  show ?thesis
    using h user_message_speaks_once [OF h, of stub_dot fresh]
    by (simp add: stub_defs hello_message_def)
qed

text \<open>
  Claim C4. For a perception whose type is none of \<^verbatim>\<open>user_message\<close>,
  \<^verbatim>\<open>self_reflection\<close>, \<^verbatim>\<open>experience\<close>, the router returns \<open>Observed\<close>, a value
  and not an error, and calls neither \<^verbatim>\<open>speak\<close> nor \<^verbatim>\<open>think\<close>.
\<close>

theorem unknown_type_observed:
  assumes "type p \<notin> {''user_message'', ''self_reflection'', ''experience''}"
  shows "result_of onPerception soul p w = Inr (Observed (observe soul (content p)))
       \<and> calls_of onPerception soul p w = [Observe (content p)]
       \<and> filter is_speak (calls_of onPerception soul p w) = []
       \<and> filter is_think (calls_of onPerception soul p w) = []"
  using assms by (simp add: run_defs onPerception_def soul_observe_def)

theorem unknown_type_observed_witness:
  "type weather_report \<notin> {''user_message'', ''self_reflection'', ''experience''}
   \<and> result_of onPerception stub_dot weather_report fresh = Inr (Observed ''light rain'')
   \<and> calls_of onPerception stub_dot weather_report fresh = [Observe ''light rain'']
   \<and> filter is_speak (calls_of onPerception stub_dot weather_report fresh) = []
   \<and> filter is_think (calls_of onPerception stub_dot weather_report fresh) = []"
proof -
  have h: "type weather_report \<notin> {''user_message'', ''self_reflection'', ''experience''}"
    by (simp add: weather_report_def)
  show ?thesis
    using h unknown_type_observed [OF h, of stub_dot fresh]
    by (simp add: stub_defs weather_report_def)
qed

text \<open>
  Claim C5. For a perception of type \<^verbatim>\<open>self_reflection\<close> the router invokes
  \<^verbatim>\<open>think\<close> on the perception's content and returns a \<open>Thought\<close>; the result is
  never a \<open>Spoken\<close>.
\<close>

theorem self_reflection_thinks:
  assumes "type p = ''self_reflection''"
  shows "result_of onPerception soul p w = Inr (Thought (think soul (content p)))
       \<and> calls_of onPerception soul p w = [Think (content p)]
       \<and> (\<forall>text. result_of onPerception soul p w \<noteq> Inr (Spoken text))"
  using assms by (simp add: run_defs onPerception_def soul_think_def)

theorem self_reflection_thinks_witness:
  "type pondering = ''self_reflection''
   \<and> result_of onPerception stub_dot pondering fresh = Inr (Thought ''why do leaves fall?'')
   \<and> calls_of onPerception stub_dot pondering fresh = [Think ''why do leaves fall?'']
   \<and> (\<forall>text. result_of onPerception stub_dot pondering fresh \<noteq> Inr (Spoken text))"
proof -
  have h: "type pondering = ''self_reflection''"
    by (simp add: pondering_def)
  show ?thesis
    using h self_reflection_thinks [OF h, of stub_dot fresh]
    by (simp add: stub_defs pondering_def)
qed

text \<open>
  Claim C8. The perception \<^verbatim>\<open>{type: "user_message", content: "hello"}\<close>, with a stub
  \<^verbatim>\<open>speak\<close> that echoes its input prefixed with \<^verbatim>\<open>"Dot: "\<close>, yields
  \<^verbatim>\<open>Spoken("Dot: hello")\<close>; the content reaches \<^verbatim>\<open>speak\<close> unchanged.
\<close>

theorem echo_speak_example:
  "result_of onPerception (soul\<lparr>speak := echo_speak\<rparr>)
     \<lparr>content = ''hello'', type = ''user_message''\<rparr> w = Inr (Spoken ''Dot: hello'')
   \<and> calls_of onPerception (soul\<lparr>speak := echo_speak\<rparr>)
     \<lparr>content = ''hello'', type = ''user_message''\<rparr> w = [Speak ''hello'']"
  by (simp add: run_defs onPerception_def soul_speak_def echo_speak_def)

text \<open>
  Claim C9. For a perception of type \<^verbatim>\<open>experience\<close> whose append succeeds, the text
  passed to \<^verbatim>\<open>think\<close> is the fixed acknowledgment, whatever the perception's content.
\<close>

theorem experience_ack_fixed:
  assumes "type p = ''experience''"
    and "append_ok soul (memory w) (record_for soul p (now w))"
  shows "filter is_think (calls_of onPerception soul p w) = [Think ''I'll remember this...'']
       \<and> result_of onPerception soul p w = Inr (Thought (think soul ''I'll remember this...''))"
  by (simp add: run_defs experience_ok [OF assms])

theorem experience_ack_fixed_witness:
  "type met_a_friend = ''experience''
   \<and> append_ok stub_dot (memory fresh) (record_for stub_dot met_a_friend (now fresh))
   \<and> filter is_think (calls_of onPerception stub_dot met_a_friend fresh)
       = [Think ''I'll remember this...'']
   \<and> result_of onPerception stub_dot met_a_friend fresh = Inr (Thought ''I'll remember this...'')"
proof -
  have h1: "type met_a_friend = ''experience''"
    by (simp add: met_a_friend_def)
  have h2: "append_ok stub_dot (memory fresh) (record_for stub_dot met_a_friend (now fresh))"
    by (simp add: stub_defs)
  show ?thesis
    using h1 h2 experience_ack_fixed [OF h1 h2]
    by (simp add: stub_defs)
qed

text \<open>
  Claim C7. Processing the same \<^verbatim>\<open>experience\<close> perception twice, starting from an
  empty memory log, leaves two records in the log, one for each call: the append is not
  deduplicated. The second call may happen at any instant \<open>t\<close>.
\<close>

theorem two_experiences_two_records:
  assumes "type p = ''experience''"
    and "memory w = []"
    and "append_ok soul [] (record_for soul p (now w))"
    and "append_ok soul [record_for soul p (now w)] (record_for soul p t)"
  shows "memory (world_after onPerception soul p
                  ((world_after onPerception soul p w)\<lparr>now := t\<rparr>))
           = [record_for soul p (now w), record_for soul p t]
       \<and> filter is_append (calls_of onPerception soul p w) = [Append (record_for soul p (now w))]
       \<and> filter is_append
           (calls_of onPerception soul p ((world_after onPerception soul p w)\<lparr>now := t\<rparr>))
           = [Append (record_for soul p t)]"
proof -
  define w' where "w' = (world_after onPerception soul p w)\<lparr>now := t\<rparr>"
  have ok1: "append_ok soul (memory w) (record_for soul p (now w))"
    using assms(2,3) by simp
  have mem': "memory w' = [record_for soul p (now w)]"
    using experience_run(1) [OF assms(1) ok1] assms(2) by (simp add: w'_def)
  have now': "now w' = t"
    by (simp add: w'_def)
  have ok2: "append_ok soul (memory w') (record_for soul p (now w'))"
    using assms(4) by (simp add: mem' now')
  have "memory (world_after onPerception soul p w') = [record_for soul p (now w), record_for soul p t]"
    using experience_run(1) [OF assms(1) ok2] by (simp add: mem' now')
  moreover have "filter is_append (calls_of onPerception soul p w') = [Append (record_for soul p t)]"
    using experience_run(2) [OF assms(1) ok2] by (simp add: now')
  ultimately show ?thesis
    using experience_run(2) [OF assms(1) ok1] by (simp add: w'_def)
qed

theorem two_experiences_two_records_witness:
  "type met_a_friend = ''experience''
   \<and> memory fresh = []
   \<and> append_ok stub_dot [] (record_for stub_dot met_a_friend (now fresh))
   \<and> append_ok stub_dot [record_for stub_dot met_a_friend (now fresh)]
        (record_for stub_dot met_a_friend 7)
   \<and> memory (world_after onPerception stub_dot met_a_friend
               ((world_after onPerception stub_dot met_a_friend fresh)\<lparr>now := 7\<rparr>))
       = [\<lparr>record_content = ''met a new friend'', timestamp = 0, ownerIdentity = ''Dot''\<rparr>,
          \<lparr>record_content = ''met a new friend'', timestamp = 7, ownerIdentity = ''Dot''\<rparr>]"
proof -
  have h1: "type met_a_friend = ''experience''"
    by (simp add: met_a_friend_def)
  have h2: "memory fresh = []"
    by (simp add: fresh_def)
  have h3: "append_ok stub_dot [] (record_for stub_dot met_a_friend (now fresh))"
    by (simp add: stub_defs)
  have h4: "append_ok stub_dot [record_for stub_dot met_a_friend (now fresh)]
              (record_for stub_dot met_a_friend 7)"
    by (simp add: stub_defs)
  show ?thesis
    using h1 h2 h3 h4 two_experiences_two_records [OF h1 h2 h3 h4]
    by (simp add: stub_defs met_a_friend_def)
qed

subsection \<open>The mental processes\<close>

text \<open>
  Claim C6. \<^verbatim>\<open>select\<close> returns a behavior for each of the modes \<^verbatim>\<open>idle\<close>,
  \<^verbatim>\<open>curious\<close>, \<^verbatim>\<open>empathetic\<close>, \<^verbatim>\<open>playful\<close>; for every other mode it
  fails with \<open>UnknownModeError\<close>, and the caller then falls back to the
  \<^verbatim>\<open>idle\<close> behavior, so that it obtains a behavior for every mode.
\<close>

theorem select_total_on_modes:
  "(mode \<in> {''idle'', ''curious'', ''empathetic'', ''playful''} \<longrightarrow>
      (\<exists>h. select dot_processes mode = Inr h))
   \<and> (mode \<notin> {''idle'', ''curious'', ''empathetic'', ''playful''} \<longrightarrow>
        select dot_processes mode = Inl UnknownModeError
      \<and> select_or_idle dot_processes mode = Inr idle)
   \<and> select dot_processes ''idle'' = Inr idle
   \<and> select dot_processes ''curious'' = Inr curious
   \<and> select dot_processes ''empathetic'' = Inr empathetic
   \<and> select dot_processes ''playful'' = Inr playful
   \<and> (\<exists>h. select_or_idle dot_processes mode = Inr h)"
  by (auto simp add: select_def select_or_idle_def dot_processes_def on_def)

theorem select_total_on_modes_witness:
  "''curious'' \<in> {''idle'', ''curious'', ''empathetic'', ''playful''}
   \<and> (\<exists>h. select dot_processes ''curious'' = Inr h)
   \<and> ''sleepy'' \<notin> {''idle'', ''curious'', ''empathetic'', ''playful''}
   \<and> select dot_processes ''sleepy'' = Inl UnknownModeError
   \<and> select_or_idle dot_processes ''sleepy'' = Inr idle"
  using select_total_on_modes [of "''curious''"] select_total_on_modes [of "''sleepy''"]
  by simp

text \<open>
  Claim C10. Each registered mode behavior ignores the perception: on the same soul and world
  it gives the same outcome for any two perceptions, and it passes one fixed text to
  \<^verbatim>\<open>think\<close>.
\<close>

theorem mode_behaviors_ignore_perception:
  assumes "dot_processes mode = Some h"
  shows "h soul p1 w = h soul p2 w
       \<and> (\<exists>text. \<forall>p w'. calls_of h soul p w' = [Think text]
                      \<and> result_of h soul p w' = Inr (Thought (think soul text)))"
proof -
  from assms have "h = idle \<or> h = curious \<or> h = empathetic \<or> h = playful"
    by (auto simp add: dot_processes_def on_def split: if_splits)
  then show ?thesis
    by (auto simp add: run_defs idle_def curious_def empathetic_def playful_def soul_think_def)
qed

theorem mode_behaviors_ignore_perception_witness:
  "dot_processes ''playful'' = Some playful
   \<and> playful stub_dot hello_message fresh = playful stub_dot met_a_friend fresh
   \<and> (\<exists>text. \<forall>p w'. calls_of playful stub_dot p w' = [Think text]
                   \<and> result_of playful stub_dot p w' = Inr (Thought (think stub_dot text)))"
proof -
  have h: "dot_processes ''playful'' = Some playful"
    by (simp add: dot_processes_def on_def)
  show ?thesis
    using h mode_behaviors_ignore_perception [OF h, of stub_dot hello_message fresh met_a_friend]
    by simp
qed

end
